theory Spec2Isabelle
  imports Main
begin

section \<open>The MPRIS module of Waybar: a shallow embedding of \<^verbatim>\<open>mpris.cpp\<close>\<close>

text \<open>
  The module shows the state of a media player in a bar cell. Its source is one C++ file;
  the functions embedded here are \<^verbatim>\<open>Mpris::getIcon\<close>, the two name callbacks
  \<^verbatim>\<open>onPlayerNameAppeared\<close> and \<^verbatim>\<open>onPlayerNameVanished\<close>,
  \<^verbatim>\<open>Mpris::getPlayerInfo\<close>, \<^verbatim>\<open>Mpris::handleToggle\<close> and
  \<^verbatim>\<open>Mpris::update\<close>.

  Conventions of the embedding:
  \<^item> a C++ member whose name ends in an underscore (\<^verbatim>\<open>format_\<close>, \<^verbatim>\<open>player_\<close>) is
    written with the suffix \<open>_m\<close> (\<open>format_m\<close>, \<open>player_m\<close>), since a name may not end
    in an underscore here; the field \<^verbatim>\<open>length\<close> of \<^verbatim>\<open>PlayerInfo\<close> is \<open>length_i\<close>;
  \<^item> a C pointer that may be null (\<^verbatim>\<open>char*\<close>, \<^verbatim>\<open>GError*\<close>, \<^verbatim>\<open>PlayerctlPlayer*\<close>) is
    an \<open>option\<close>, \<open>None\<close> being the null pointer;
  \<^item> an exception leaving a function and an operation whose behaviour the language leaves
    undefined are values of the type \<open>failure\<close>, returned on the left of a sum;
  \<^item> calls to the collaborators (logger, dispatcher, bus commands, parent class) are
    recorded, in program order, in the \<open>trace\<close> of the module's state.
\<close>

subsection \<open>Failures\<close>

datatype failure =
    RuntimeError string  \<comment> \<open>\<^verbatim>\<open>throw std::runtime_error(msg)\<close>\<close>
  | FormatError          \<comment> \<open>an exception of the formatting library\<close>
  | Undefined            \<comment> \<open>undefined behaviour: a null \<^verbatim>\<open>char*\<close> or an empty \<^verbatim>\<open>std::optional\<close> dereferenced\<close>

subsection \<open>Characters and numbers\<close>

text \<open>
  \<^verbatim>\<open>std::tolower\<close> applied to a plain \<^verbatim>\<open>char\<close>, and the result stored in a \<^verbatim>\<open>char\<close>
  again. The function takes an \<^verbatim>\<open>int\<close>, and the language defines it only for the values
  of \<^verbatim>\<open>unsigned char\<close> and for \<^verbatim>\<open>EOF\<close>. A plain \<^verbatim>\<open>char\<close> is taken as signed, as it is on
  x86-64: the bytes 0x80 to 0xFE are then the negative values -128 to -2, for which the
  call is undefined; the byte 0xFF is -1, which is \<^verbatim>\<open>EOF\<close> and is returned unchanged. In
  the "C" locale only the letters A to Z change.
\<close>

definition lower_letter :: "char \<Rightarrow> char" where
  "lower_letter c =
     (case map_of (zip ''ABCDEFGHIJKLMNOPQRSTUVWXYZ'' ''abcdefghijklmnopqrstuvwxyz'') c of
        Some l \<Rightarrow> l
      | None \<Rightarrow> c)"

definition tolower :: "char \<Rightarrow> failure + char" where
  "tolower c =
     (if 128 \<le> (of_char c :: nat) \<and> (of_char c :: nat) \<le> 254 then Inl Undefined
      else Inr (lower_letter c))"

text \<open>\<^verbatim>\<open>isspace\<close> and \<^verbatim>\<open>isdigit\<close> of the "C" locale, as \<^verbatim>\<open>strtol\<close> uses them.\<close>

definition isspace :: "char \<Rightarrow> bool" where
  "isspace c = (c \<in> set [CHR '' '', CHR 0x09, CHR 0x0A, CHR 0x0B, CHR 0x0C, CHR 0x0D])"

definition isdigit :: "char \<Rightarrow> bool" where
  "isdigit c = (c \<in> set ''0123456789'')"

definition digit_value :: "char \<Rightarrow> int" where
  "digit_value c = of_char c - 48"

definition LONG_MAX :: int where
  "LONG_MAX = 2 ^ 63 - 1"

definition LONG_MIN :: int where
  "LONG_MIN = - (2 ^ 63)"

text \<open>The value of the longest prefix of decimal digits, \<open>acc\<close> being the value read so far.\<close>

fun digits_value :: "int \<Rightarrow> string \<Rightarrow> int" where
  "digits_value acc [] = acc"
| "digits_value acc (c # cs) =
     (if isdigit c then digits_value (acc * 10 + digit_value c) cs else acc)"

text \<open>
  \<^verbatim>\<open>std::strtol(s, nullptr, 10)\<close> with a 64-bit \<^verbatim>\<open>long\<close>: white space is skipped, one
  sign is read, then the digits; a string with no digits gives 0, and a value out of the
  range of \<^verbatim>\<open>long\<close> is clamped to \<^verbatim>\<open>LONG_MAX\<close> or \<^verbatim>\<open>LONG_MIN\<close>.
\<close>

definition strtol10 :: "string \<Rightarrow> int" where
  "strtol10 s =
     (case dropWhile isspace s of
        [] \<Rightarrow> 0
      | c # r \<Rightarrow>
          if c = CHR ''-'' then max LONG_MIN (- digits_value 0 r)
          else if c = CHR ''+'' then min LONG_MAX (digits_value 0 r)
          else min LONG_MAX (digits_value 0 (c # r)))"

text \<open>Decimal digits of a natural number, most significant first.\<close>

fun show_nat :: "nat \<Rightarrow> string" where
  "show_nat n =
     (if n < 10 then [''0123456789'' ! n]
      else show_nat (n div 10) @ [''0123456789'' ! (n mod 10)])"

declare show_nat.simps [simp del]

text \<open>
  The replacement field \<^verbatim>\<open>{:02}\<close> of the formatting library on a signed integer: the
  decimal digits, padded with zeros on the left to a width of two characters, the sign
  counting for the width.
\<close>

definition fmt_02 :: "int \<Rightarrow> string" where
  "fmt_02 i =
     (if i < 0 then CHR ''-'' # show_nat (nat (- i))
      else let ds = show_nat (nat i) in replicate (2 - length ds) CHR ''0'' @ ds)"

subsection \<open>The duration string (lines 223 to 233 of \<^verbatim>\<open>getPlayerInfo\<close>)\<close>

text \<open>
  \<^verbatim>\<open>std::chrono::duration_cast\<close> from microseconds to a unit of \<open>period\<close> microseconds
  divides the count by the period and drops the fraction, towards zero. The three casts
  are made on \<^verbatim>\<open>len\<close>, \<^verbatim>\<open>len - len_h\<close> and \<^verbatim>\<open>len - len_m\<close>, the differences being taken
  in microseconds.
\<close>

definition duration_cast :: "int \<Rightarrow> int \<Rightarrow> int" where
  "duration_cast period ticks =
     (if ticks < 0 then - ((- ticks) div period) else ticks div period)"

definition len_h :: "int \<Rightarrow> int" where
  "len_h len = duration_cast 3600000000 len"

definition len_m :: "int \<Rightarrow> int" where
  "len_m len = duration_cast 60000000 (len - len_h len * 3600000000)"

definition len_s :: "int \<Rightarrow> int" where
  "len_s len = duration_cast 1000000 (len - len_m len * 60000000)"

definition format_length :: "int \<Rightarrow> string option" where
  "format_length len =
     (if len > 0 then
        Some (if len_h len > 0
              then fmt_02 (len_h len) @ '':'' @ fmt_02 (len_m len) @ '':'' @ fmt_02 (len_s len)
              else fmt_02 (len_m len) @ '':'' @ fmt_02 (len_s len))
      else None)"

text \<open>The duration field from the text of the metadata property \<^verbatim>\<open>mpris:length\<close>.\<close>

definition length_of_prop :: "string \<Rightarrow> string option" where
  "length_of_prop s = format_length (strtol10 s)"

subsection \<open>Configuration values\<close>

text \<open>
  The configuration is a JSON value. Only what the module asks of it is kept: whether a
  value is a string or an object, the text of a string, and the member of an object
  under a key (null when the key is absent). \<open>JOther\<close> stands for the numbers, booleans
  and arrays.
\<close>

datatype json = JNull | JString string | JObject "(string \<times> json) list" | JOther

definition isString :: "json \<Rightarrow> bool" where
  "isString j = (case j of JString _ \<Rightarrow> True | _ \<Rightarrow> False)"

definition isObject :: "json \<Rightarrow> bool" where
  "isObject j = (case j of JObject _ \<Rightarrow> True | _ \<Rightarrow> False)"

definition asString :: "json \<Rightarrow> string" where
  "asString j = (case j of JString s \<Rightarrow> s | _ \<Rightarrow> [])"

definition member :: "json \<Rightarrow> string \<Rightarrow> json" where
  "member j k =
     (case j of
        JObject kvs \<Rightarrow> (case map_of kvs k of Some v \<Rightarrow> v | None \<Rightarrow> JNull)
      | _ \<Rightarrow> JNull)"

text \<open>\<^verbatim>\<open>Mpris::getIcon\<close> (lines 84 to 93).\<close>

definition getIcon :: "json \<Rightarrow> string \<Rightarrow> string" where
  "getIcon icons key =
     (if isObject icons then
        (if isString (member icons key) then asString (member icons key)
         else if isString (member icons ''default'') then asString (member icons ''default'')
         else [])
      else [])"

subsection \<open>Data model\<close>

datatype PlaybackStatus = PLAYING | PAUSED | STOPPED

record PlayerInfo =
  name :: string
  status :: PlaybackStatus
  status_string :: string
  artist :: "string option"
  album :: "string option"
  title :: "string option"
  length_i :: "string option"

datatype GdkEventType = GDK_BUTTON_PRESS | GDK_2BUTTON_PRESS | GDK_3BUTTON_PRESS

record GdkEventButton =
  ev_type :: GdkEventType
  button :: nat

text \<open>A connection to a player (\<^verbatim>\<open>PlayerctlPlayer*\<close>) is known by a number.\<close>

type_synonym handle = nat

datatype level = Debug | Warn | Error

datatype command = PlayPause | Previous | Next

text \<open>What the module does to its collaborators, in the order of the calls.\<close>

datatype effect =
    Log level string               \<comment> \<open>\<^verbatim>\<open>spdlog::debug\<close>, \<^verbatim>\<open>warn\<close>, \<^verbatim>\<open>error\<close> with the message\<close>
  | Sleep nat                      \<comment> \<open>\<^verbatim>\<open>sleep(n)\<close>, in seconds\<close>
  | DpEmit                         \<comment> \<open>\<^verbatim>\<open>dp.emit()\<close>: a refresh pass is requested\<close>
  | Command command handle         \<comment> \<open>a transport command sent to a player\<close>
  | Subscribe handle "string list" \<comment> \<open>\<^verbatim>\<open>g_object_connect\<close> of the player's signals\<close>
  | ParentUpdate                   \<comment> \<open>\<^verbatim>\<open>AModule::update()\<close>\<close>
  | ParentToggle GdkEventButton    \<comment> \<open>\<^verbatim>\<open>AModule::handleToggle(e)\<close>\<close>

text \<open>
  The world outside the module, as one pass sees it: the answers of the bus library
  (a returned pointer together with the \<^verbatim>\<open>GError*\<close> the call leaves, both possibly
  null), and the library functions the module calls whose code is not the module's.
  The status text and the playback status are two properties that line 164 reads
  side by side; the module relies on no relation between them.
\<close>

record world =
  new_from_name :: "string \<Rightarrow> handle option \<times> string option"
  list_players :: "string list \<times> string option"
  status_prop :: "handle \<Rightarrow> string option"
  playback_status_prop :: "handle \<Rightarrow> PlaybackStatus"
  get_artist :: "handle \<Rightarrow> string option \<times> string option"
  get_album :: "handle \<Rightarrow> string option \<times> string option"
  get_title :: "handle \<Rightarrow> string option \<times> string option"
  print_metadata_prop :: "handle \<Rightarrow> string \<Rightarrow> string option \<times> string option"
  run_command :: "command \<Rightarrow> handle \<Rightarrow> string option"
  escape_text :: "string \<Rightarrow> string"
  fmt_format :: "string \<Rightarrow> (string \<times> string) list \<Rightarrow> failure + string"
  parent_handleToggle :: "GdkEventButton \<Rightarrow> bool"

text \<open>
  The module's members that the embedded functions read or write. \<open>visible\<close> is the
  visibility of \<^verbatim>\<open>event_box_\<close>, \<open>label_m\<close> the markup of \<^verbatim>\<open>label_\<close> and \<open>classes\<close> the style
  classes of \<^verbatim>\<open>box_\<close>.
\<close>

record Mpris =
  config_m :: json
  format_m :: string
  format_playing_m :: string
  format_paused_m :: string
  format_stopped_m :: string
  player_m :: string
  ignored_players_m :: "string list"
  player :: "handle option"
  visible :: bool
  label_m :: string
  classes :: "string list"
  lastStatus :: string
  lastPlayer :: string
  trace :: "effect list"

definition emit :: "effect \<Rightarrow> Mpris \<Rightarrow> Mpris" where
  "emit e m = m\<lparr>trace := trace m @ [e]\<rparr>"

subsection \<open>The name callbacks (lines 95 to 119)\<close>

text \<open>
  \<^verbatim>\<open>data\<close> is the module, or null. The name of the player is only written to the log.
\<close>

definition onPlayerNameAppeared :: "string \<Rightarrow> Mpris option \<Rightarrow> Mpris option" where
  "onPlayerNameAppeared player_name data =
     (case data of
        None \<Rightarrow> None
      | Some mpris \<Rightarrow>
          Some (emit DpEmit
                 ((emit (Sleep 1)
                    (emit (Log Debug (''mpris: name-appeared callback: '' @ player_name)) mpris))
                  \<lparr>player := None\<rparr>)))"

definition onPlayerNameVanished :: "string \<Rightarrow> Mpris option \<Rightarrow> Mpris option" where
  "onPlayerNameVanished player_name data =
     (case data of
        None \<Rightarrow> None
      | Some mpris \<Rightarrow>
          Some (emit DpEmit
                 ((emit (Log Debug (''mpris: name-vanished callback: '' @ player_name)) mpris)
                  \<lparr>player := None\<rparr>)))"

subsection \<open>\<^verbatim>\<open>Mpris::getPlayerInfo\<close> (lines 154 to 243)\<close>

text \<open>
  Lines 166 to 178: the name shown for the player. For the alias \<^verbatim>\<open>playerctld\<close> the
  players are listed; an error of the listing is thrown as a \<^verbatim>\<open>std::runtime_error\<close>
  (\<open>Inl\<close> holds its message), and the first player of the list, when there is one,
  gives the name.
\<close>

definition resolve_name :: "world \<Rightarrow> Mpris \<Rightarrow> string + string" where
  "resolve_name w m =
     (if player_m m = ''playerctld'' then
        (case snd (list_players w) of
           Some msg \<Rightarrow> Inl (''unable to list players: '' @ msg)
         | None \<Rightarrow>
             (case fst (list_players w) of
                [] \<Rightarrow> Inr (player_m m)
              | p # _ \<Rightarrow> Inr p))
      else Inr (player_m m))"

text \<open>
  Line 187, on a status text that is not null: the first byte is replaced by its lower
  case, with no test of the text. For the empty text that byte is the terminating zero,
  which stays zero. Where \<^verbatim>\<open>std::tolower\<close> is undefined on the first byte, so is the line.
\<close>

definition lower_first :: "string \<Rightarrow> failure + string" where
  "lower_first s =
     (case s of
        [] \<Rightarrow> Inr []
      | c # cs \<Rightarrow> (case tolower c of Inl f \<Rightarrow> Inl f | Inr l \<Rightarrow> Inr (l # cs)))"

text \<open>
  Lines 195 to 201 (artist), 204 to 210 (album), 213 to 219 (title): a returned text that
  is not empty is escaped and stored in the field, and logged. \<open>upd\<close> is the update of
  the field, \<open>key\<close> its name in the log.
\<close>

definition fetch_text ::
  "world \<Rightarrow> string \<Rightarrow> ((string option \<Rightarrow> string option) \<Rightarrow> PlayerInfo \<Rightarrow> PlayerInfo) \<Rightarrow>
   string option \<Rightarrow> PlayerInfo \<times> Mpris \<Rightarrow> PlayerInfo \<times> Mpris" where
  "fetch_text w key upd r im =
     (case r of
        None \<Rightarrow> im
      | Some s \<Rightarrow>
          if length s > 0
          then (upd (\<lambda>_. Some (escape_text w s)) (fst im),
                emit (Log Debug (''mpris['' @ name (fst im) @ '']: '' @ key @ '' = '' @ s)) (snd im))
          else im)"

text \<open>Lines 222 to 234: the duration.\<close>

definition fetch_length :: "string option \<Rightarrow> PlayerInfo \<times> Mpris \<Rightarrow> PlayerInfo \<times> Mpris" where
  "fetch_length r im =
     (case r of
        None \<Rightarrow> im
      | Some s \<Rightarrow>
          (case length_of_prop s of
             None \<Rightarrow> im
           | Some l \<Rightarrow>
               ((fst im)\<lparr>length_i := Some l\<rparr>,
                emit (Log Debug (''mpris['' @ name (fst im) @ '']: mpris:length = '' @ l)) (snd im))))"

text \<open>Lines 239 to 242, the label \<^verbatim>\<open>errorexit\<close>.\<close>

definition errorexit ::
  "string \<Rightarrow> PlayerInfo \<times> Mpris \<Rightarrow> (failure + PlayerInfo option) \<times> Mpris" where
  "errorexit msg im =
     (Inr None, emit (Log Error (''mpris['' @ name (fst im) @ '']: '' @ msg)) (snd im))"

text \<open>
  Lines 195 to 237: the four fetches in their order, each followed by the test of the
  error it left (\<^verbatim>\<open>if (error) goto errorexit\<close>).
\<close>

definition fetch_metadata ::
  "world \<Rightarrow> handle \<Rightarrow> PlayerInfo \<times> Mpris \<Rightarrow> (failure + PlayerInfo option) \<times> Mpris" where
  "fetch_metadata w p im0 =
     (let im1 = fetch_text w ''artist'' artist_update (fst (get_artist w p)) im0 in
      case snd (get_artist w p) of
        Some e \<Rightarrow> errorexit e im1
      | None \<Rightarrow>
     (let im2 = fetch_text w ''album'' album_update (fst (get_album w p)) im1 in
      case snd (get_album w p) of
        Some e \<Rightarrow> errorexit e im2
      | None \<Rightarrow>
     (let im3 = fetch_text w ''title'' title_update (fst (get_title w p)) im2 in
      case snd (get_title w p) of
        Some e \<Rightarrow> errorexit e im3
      | None \<Rightarrow>
     (let im4 = fetch_length (fst (print_metadata_prop w p ''mpris:length'')) im3 in
      case snd (print_metadata_prop w p ''mpris:length'') of
        Some e \<Rightarrow> errorexit e im4
      | None \<Rightarrow> (Inr (Some (fst im4)), snd im4)))))"

text \<open>
  The whole function. A null status text makes line 187 read and write through a null
  pointer: the outcome is \<open>Undefined\<close>, as it is where the lowering of the first byte
  is undefined.
\<close>

definition getPlayerInfo :: "world \<Rightarrow> Mpris \<Rightarrow> (failure + PlayerInfo option) \<times> Mpris" where
  "getPlayerInfo w m =
     (case player m of
        None \<Rightarrow> (Inr None, emit (Log Debug (''mpris['' @ player_m m @ '']: no player'')) m)
      | Some p \<Rightarrow>
          (case resolve_name w m of
             Inl e \<Rightarrow> (Inl (RuntimeError e), m)
           | Inr player_name \<Rightarrow>
               if player_name \<in> set (ignored_players_m m)
               then (Inr None,
                     emit (Log Warn (''mpris['' @ player_name @ '']: ignoring player update'')) m)
               else
                 (case status_prop w p of
                    None \<Rightarrow> (Inl Undefined, m)
                  | Some player_status \<Rightarrow>
                      (case lower_first player_status of
                         Inl f \<Rightarrow> (Inl f, m)
                       | Inr lowered \<Rightarrow>
                           fetch_metadata w p
                             (\<lparr>name = player_name,
                               status = playback_status_prop w p,
                               status_string = lowered,
                               artist = None, album = None, title = None,
                               length_i = None\<rparr>,
                              m)))))"

subsection \<open>\<^verbatim>\<open>Mpris::handleToggle\<close> (lines 245 to 280)\<close>

text \<open>
  A built-in command on the module's player. On a null player the bus library returns
  at once and leaves no error; \<^verbatim>\<open>handleToggle\<close> reaches the call only with a player.
\<close>

definition issue :: "world \<Rightarrow> command \<Rightarrow> Mpris \<Rightarrow> string option \<times> Mpris" where
  "issue w c m =
     (case player m of
        None \<Rightarrow> (None, m)
      | Some p \<Rightarrow> (run_command w c p, emit (Command c p) m))"

text \<open>Lines 273 to 279: the test of the error after the \<^verbatim>\<open>switch\<close>.\<close>

definition finish_toggle ::
  "PlayerInfo \<Rightarrow> string option \<times> Mpris \<Rightarrow> (failure + bool) \<times> Mpris" where
  "finish_toggle info em =
     (case fst em of
        Some msg \<Rightarrow>
          (Inr False,
           emit (Log Error (''mpris['' @ name info @
                   '']: error running builtin on-click action: '' @ msg)) (snd em))
      | None \<Rightarrow> (Inr True, snd em))"

definition delegate :: "world \<Rightarrow> GdkEventButton \<Rightarrow> Mpris \<Rightarrow> (failure + bool) \<times> Mpris" where
  "delegate w e m = (Inr (parent_handleToggle w e), emit (ParentToggle e) m)"

definition handleToggle ::
  "world \<Rightarrow> GdkEventButton \<Rightarrow> Mpris \<Rightarrow> (failure + bool) \<times> Mpris" where
  "handleToggle w e m =
     (case getPlayerInfo w m of
        (Inl f, m1) \<Rightarrow> (Inl f, m1)
      | (Inr None, m1) \<Rightarrow> (Inr False, m1)
      | (Inr (Some info), m1) \<Rightarrow>
          if ev_type e = GDK_BUTTON_PRESS then
            (if button e = 1 then
               (if isString (member (config_m m1) ''on-click'') then delegate w e m1
                else finish_toggle info (issue w PlayPause m1))
             else if button e = 2 then
               (if isString (member (config_m m1) ''on-middle-click'') then delegate w e m1
                else finish_toggle info (issue w Previous m1))
             else if button e = 3 then
               (if isString (member (config_m m1) ''on-right-click'') then delegate w e m1
                else finish_toggle info (issue w Next m1))
             else finish_toggle info (None, m1))
          else finish_toggle info (None, m1))"

subsection \<open>\<^verbatim>\<open>Mpris::update\<close> (lines 282 to 377)\<close>

text \<open>
  Lines 283 to 298: without a player, one is opened under the configured name. The
  returned pointer is stored before the error is tested, and an error is thrown. The
  signal \<^verbatim>\<open>stop\<close> is connected twice.
\<close>

definition connect_player :: "world \<Rightarrow> Mpris \<Rightarrow> failure option \<times> Mpris" where
  "connect_player w m =
     (case player m of
        Some _ \<Rightarrow> (None, m)
      | None \<Rightarrow>
          (let m1 = m\<lparr>player := fst (new_from_name w (player_m m))\<rparr> in
           case snd (new_from_name w (player_m m)) of
             Some msg \<Rightarrow>
               (Some (RuntimeError
                  (''unable to connect to player '' @ player_m m @ '': '' @ msg)), m1)
           | None \<Rightarrow>
               (None,
                case player m1 of
                  None \<Rightarrow> m1
                | Some p \<Rightarrow>
                    emit (Subscribe p [''play'', ''pause'', ''stop'', ''stop'', ''metadata'']) m1)))"

text \<open>
  Lines 319 to 333. The statements \<^verbatim>\<open>dynamic << *info.album\<close> and
  \<^verbatim>\<open>dynamic << *info.title\<close> are not in the body of the \<^verbatim>\<open>if\<close> above them (there are no
  braces): they run for every snapshot, and \<^verbatim>\<open>*\<close> on an empty optional is undefined.
\<close>

definition dynamic :: "PlayerInfo \<Rightarrow> failure + string" where
  "dynamic info =
     (let d1 = (case artist info of Some a \<Rightarrow> a | None \<Rightarrow> []);
          d2 = (if album info \<noteq> None \<and> artist info \<noteq> None then d1 @ '' - '' else d1)
      in case album info of
           None \<Rightarrow> Inl Undefined
         | Some al \<Rightarrow>
             (let d3 = d2 @ al;
                  d4 = (if title info \<noteq> None \<and> (artist info \<noteq> None \<or> album info \<noteq> None)
                        then d3 @ '' - '' else d3)
              in case title info of
                   None \<Rightarrow> Inl Undefined
                 | Some t \<Rightarrow>
                     (let d5 = d4 @ t
                      in Inr (case length_i info of
                                Some l \<Rightarrow> d5 @ '' '' @ ''<small>'' @ ''['' @ l @ '']'' @ ''</small>''
                              | None \<Rightarrow> d5))))"

text \<open>
  Lines 336 to 342 and 345 to 351: the class of the last pass is removed when the box
  has it, and the current one is added when the box does not have it.
\<close>

definition set_class :: "string \<Rightarrow> string \<Rightarrow> string list \<Rightarrow> string list" where
  "set_class prev cur cs =
     (let cs1 = (if prev \<noteq> [] \<and> prev \<in> set cs then removeAll prev cs else cs)
      in if cur \<notin> set cs1 then cs1 @ [cur] else cs1)"

text \<open>Lines 353 to 364.\<close>

definition select_format :: "Mpris \<Rightarrow> PlayerInfo \<Rightarrow> string" where
  "select_format m info =
     (case status info of
        PLAYING \<Rightarrow> if format_playing_m m \<noteq> [] then format_playing_m m else format_m m
      | PAUSED \<Rightarrow> if format_paused_m m \<noteq> [] then format_paused_m m else format_m m
      | STOPPED \<Rightarrow> if format_stopped_m m \<noteq> [] then format_stopped_m m else format_m m)"

text \<open>
  Lines 366 to 371: the named arguments, \<open>config\<close> being \<^verbatim>\<open>config_\<close>. Each of
  \<^verbatim>\<open>*info.artist\<close>, \<^verbatim>\<open>*info.title\<close>, \<^verbatim>\<open>*info.album\<close> and \<^verbatim>\<open>*info.length\<close> is evaluated
  to build the list, whatever the template holds.
\<close>

definition format_args :: "json \<Rightarrow> PlayerInfo \<Rightarrow> string \<Rightarrow> failure + (string \<times> string) list" where
  "format_args config info dyn =
     (case artist info of None \<Rightarrow> Inl Undefined | Some a \<Rightarrow>
      case title info of None \<Rightarrow> Inl Undefined | Some t \<Rightarrow>
      case album info of None \<Rightarrow> Inl Undefined | Some al \<Rightarrow>
      case length_i info of None \<Rightarrow> Inl Undefined | Some l \<Rightarrow>
        Inr [(''player'', name info), (''status'', status_string info),
             (''artist'', a), (''title'', t), (''album'', al), (''length'', l),
             (''dynamic'', dyn),
             (''player_icon'', getIcon (member config ''player-icons'') (name info)),
             (''status_icon'', getIcon (member config ''status-icons'') (status_string info))])"

text \<open>Lines 315 to 376: what a pass does with a snapshot that is not stopped.\<close>

definition render :: "world \<Rightarrow> PlayerInfo \<Rightarrow> Mpris \<Rightarrow> failure option \<times> Mpris" where
  "render w info m =
     (case dynamic info of
        Inl f \<Rightarrow> (Some f, m)
      | Inr dyn \<Rightarrow>
          (let m1 = m\<lparr>classes := set_class (lastStatus m) (status_string info) (classes m),
                      lastStatus := status_string info\<rparr>;
               m2 = m1\<lparr>classes := set_class (lastPlayer m1) (name info) (classes m1),
                       lastPlayer := name info\<rparr>
           in case format_args (config_m m2) info dyn of
                Inl f \<Rightarrow> (Some f, m2)
              | Inr args \<Rightarrow>
                  (case fmt_format w (select_format m2 info) args of
                     Inl f \<Rightarrow> (Some f, m2)
                   | Inr label_format \<Rightarrow>
                       (None, emit ParentUpdate (m2\<lparr>label_m := label_format, visible := True\<rparr>)))))"

text \<open>The whole pass; \<open>Some f\<close> is a pass that ends in the failure \<open>f\<close>.\<close>

definition update :: "world \<Rightarrow> Mpris \<Rightarrow> failure option \<times> Mpris" where
  "update w m =
     (case connect_player w m of
        (Some f, m1) \<Rightarrow> (Some f, m1)
      | (None, m1) \<Rightarrow>
          (case getPlayerInfo w m1 of
             (Inl f, m2) \<Rightarrow> (Some f, m2)
           | (Inr None, m2) \<Rightarrow> (None, emit ParentUpdate (m2\<lparr>visible := False\<rparr>))
           | (Inr (Some info), m2) \<Rightarrow>
               if status info = STOPPED
               then (None,
                     emit ParentUpdate
                       ((emit (Log Debug (''mpris['' @ name info @ '']: player stopped'')) m2)
                        \<lparr>visible := False\<rparr>))
               else render w info
                      (emit (Log Debug (''mpris['' @ name info @ '']: running update'')) m2)))"

subsection \<open>The host's dispatch of a refresh pass\<close>

datatype pass_outcome = Completed | Aborted | Unhandled

text \<open>
  Modelled from the spec: the host's handler of a refresh request, which calls
  \<^verbatim>\<open>update()\<close>; the code that connects \<^verbatim>\<open>dp\<close> to \<^verbatim>\<open>update()\<close> is the bar's, and is not
  among the module's sources. The specification says of it that connection and
  directory errors are logged and the pass aborts, with no crash. Both errors leave
  \<^verbatim>\<open>update()\<close> as a \<^verbatim>\<open>std::runtime_error\<close>. Of the other failures the specification
  says nothing that is settled: they are \<open>Unhandled\<close>.
\<close>

definition refresh_pass :: "world \<Rightarrow> Mpris \<Rightarrow> pass_outcome \<times> Mpris" where
  "refresh_pass w m =
     (case update w m of
        (None, m1) \<Rightarrow> (Completed, m1)
      | (Some (RuntimeError msg), m1) \<Rightarrow> (Aborted, emit (Log Error msg) m1)
      | (Some f, m1) \<Rightarrow> (Unhandled, m1))"

subsection \<open>Observations and the specification's wording\<close>

text \<open>The built-in commands and the delegations to the parent class in a trace.\<close>

fun commands :: "effect list \<Rightarrow> command list" where
  "commands [] = []"
| "commands (Command c p # es) = c # commands es"
| "commands (e # es) = commands es"

fun delegations :: "effect list \<Rightarrow> GdkEventButton list" where
  "delegations [] = []"
| "delegations (ParentToggle e # es) = e # delegations es"
| "delegations (e # es) = delegations es"

text \<open>
  The refresh requests of a trace: for each \<open>DpEmit\<close>, the seconds slept between the
  start of the trace (at time \<open>t\<close>) and the request.
\<close>

fun requests :: "nat \<Rightarrow> effect list \<Rightarrow> nat list" where
  "requests t [] = []"
| "requests t (Sleep n # es) = requests (t + n) es"
| "requests t (DpEmit # es) = t # requests t es"
| "requests t (e # es) = requests t es"

text \<open>The effects a step added to the trace of \<open>m\<close>.\<close>

definition added :: "Mpris \<Rightarrow> Mpris \<Rightarrow> effect list" where
  "added m m1 = drop (length (trace m)) (trace m1)"

text \<open>\<open>m1\<close> is \<open>m\<close> with some lines more in the log, and nothing else changed.\<close>

definition logged :: "Mpris \<Rightarrow> Mpris \<Rightarrow> bool" where
  "logged m m1 = (\<exists>ls. m1 = m\<lparr>trace := trace m @ map (\<lambda>(l, s). Log l s) ls\<rparr>)"

text \<open>The bindings of the three buttons: the key of the override and the built-in command.\<close>

definition override_key :: "nat \<Rightarrow> string" where
  "override_key b =
     (if b = 1 then ''on-click'' else if b = 2 then ''on-middle-click'' else ''on-right-click'')"

definition builtin :: "nat \<Rightarrow> command" where
  "builtin b = (if b = 1 then PlayPause else if b = 2 then Previous else Next)"

text \<open>A fetch that left an error.\<close>

definition failed :: "'a \<times> string option \<Rightarrow> bool" where
  "failed r = (case snd r of Some _ \<Rightarrow> True | None \<Rightarrow> False)"

definition fetch_error :: "world \<Rightarrow> handle \<Rightarrow> bool" where
  "fetch_error w p =
     (failed (get_artist w p) \<or> failed (get_album w p) \<or> failed (get_title w p) \<or>
      failed (print_metadata_prop w p ''mpris:length''))"

text \<open>
  The fully populated snapshot, in the words of the specification: the resolved name,
  the status and its text with a lower-case initial, each of artist, album and title
  when the query gave a text that is not empty (escaped), and the duration string when
  the duration is greater than zero.
\<close>

definition text_value :: "world \<Rightarrow> string option \<times> string option \<Rightarrow> string option" where
  "text_value w r =
     (case fst r of None \<Rightarrow> None | Some s \<Rightarrow> if s = [] then None else Some (escape_text w s))"

definition snapshot :: "world \<Rightarrow> handle \<Rightarrow> string \<Rightarrow> string \<Rightarrow> PlayerInfo" where
  "snapshot w p nm lowered =
     \<lparr>name = nm,
      status = playback_status_prop w p,
      status_string = lowered,
      artist = text_value w (get_artist w p),
      album = text_value w (get_album w p),
      title = text_value w (get_title w p),
      length_i = (case fst (print_metadata_prop w p ''mpris:length'') of
                    None \<Rightarrow> None
                  | Some l \<Rightarrow> length_of_prop l)\<rparr>"

text \<open>
  The composite placeholder in the words of the specification, with the markup the code
  puts around the bracketed length: the present components among artist, album and
  title, joined by \<open>" - "\<close>, then the length.
\<close>

fun join_dash :: "string list \<Rightarrow> string" where
  "join_dash [] = []"
| "join_dash [x] = x"
| "join_dash (x # y # r) = x @ '' - '' @ join_dash (y # r)"

definition dynamic_spec :: "PlayerInfo \<Rightarrow> string" where
  "dynamic_spec info =
     join_dash (List.map_filter id [artist info, album info, title info]) @
     (case length_i info of Some l \<Rightarrow> '' <small>['' @ l @ '']</small>'' | None \<Rightarrow> [])"

subsection \<open>A concrete world and module state\<close>

text \<open>
  An instance of the formatter for the examples: text is copied, \<^verbatim>\<open>{{\<close> and \<^verbatim>\<open>}}\<close> stand
  for one brace, and \<^verbatim>\<open>{name}\<close> is replaced by the argument of that name; a name that is
  not an argument and a brace that is not closed are format errors. The second argument
  is the name read so far inside a replacement field.
\<close>

fun fmt_named :: "(string \<times> string) list \<Rightarrow> string option \<Rightarrow> string \<Rightarrow> failure + string" where
  "fmt_named args None [] = Inr []"
| "fmt_named args (Some f) [] = Inl FormatError"
| "fmt_named args (Some f) (c # cs) =
     (if c = CHR ''}'' then
        (case map_of args f of
           None \<Rightarrow> Inl FormatError
         | Some v \<Rightarrow> map_sum id ((@) v) (fmt_named args None cs))
      else fmt_named args (Some (f @ [c])) cs)"
| "fmt_named args None (c # cs) =
     (if c = CHR ''{'' then
        (case cs of
           [] \<Rightarrow> Inl FormatError
         | d # ds \<Rightarrow>
             if d = CHR ''{'' then map_sum id ((#) c) (fmt_named args None ds)
             else fmt_named args (Some []) cs)
      else if c = CHR ''}'' then
        (case cs of
           [] \<Rightarrow> Inl FormatError
         | d # ds \<Rightarrow>
             if d = CHR ''}'' then map_sum id ((#) c) (fmt_named args None ds)
             else Inl FormatError)
      else map_sum id ((#) c) (fmt_named args None cs))"

text \<open>An instance of the escaping for the examples: the five characters of markup.\<close>

definition escape_char :: "char \<Rightarrow> string" where
  "escape_char c =
     (if c = CHR ''&'' then ''&amp;''
      else if c = CHR ''<'' then ''&lt;''
      else if c = CHR ''>'' then ''&gt;''
      else if c = CHR 0x27 then ''&apos;''
      else if c = CHR 0x22 then ''&quot;''
      else [c])"

definition markup_escape :: "string \<Rightarrow> string" where
  "markup_escape s = concat (map escape_char s)"

text \<open>
  A player \<open>vlc\<close> that plays title C of album B by artist A, 3 minutes 21 seconds long,
  and a module with the default configuration that is connected to it.
\<close>

definition example_world :: world where
  "example_world =
     \<lparr>new_from_name = (\<lambda>n. (Some 1, None)),
      list_players = ([''vlc''], None),
      status_prop = (\<lambda>p. Some ''Playing''),
      playback_status_prop = (\<lambda>p. PLAYING),
      get_artist = (\<lambda>p. (Some ''A'', None)),
      get_album = (\<lambda>p. (Some ''B'', None)),
      get_title = (\<lambda>p. (Some ''C'', None)),
      print_metadata_prop = (\<lambda>p k. (Some ''201000000'', None)),
      run_command = (\<lambda>c p. None),
      escape_text = markup_escape,
      fmt_format = (\<lambda>t args. fmt_named args None t),
      parent_handleToggle = (\<lambda>e. True)\<rparr>"

definition example_mpris :: Mpris where
  "example_mpris =
     \<lparr>config_m = JObject [],
      format_m = ''{player} ({status}): {dynamic}'',
      format_playing_m = [],
      format_paused_m = [],
      format_stopped_m = [],
      player_m = ''playerctld'',
      ignored_players_m = [],
      player = Some 1,
      visible = False,
      label_m = [],
      classes = [],
      lastStatus = [],
      lastPlayer = [],
      trace = []\<rparr>"

definition example_info :: PlayerInfo where
  "example_info =
     \<lparr>name = ''vlc'', status = PLAYING, status_string = ''playing'',
      artist = Some ''A'', album = Some ''B'', title = Some ''C'', length_i = Some ''03:21''\<rparr>"

section \<open>Properties\<close>

subsection \<open>Duration strings\<close>

lemma show_nat_small: "n < 10 \<Longrightarrow> show_nat n = [''0123456789'' ! n]"
  by (simp add: show_nat.simps)

lemma show_nat_large:
  "\<not> n < 10 \<Longrightarrow> show_nat n = show_nat (n div 10) @ [''0123456789'' ! (n mod 10)]"
  by (subst show_nat.simps) simp

lemma strtol10_zero: "strtol10 ''0'' = 0"
  by (simp add: strtol10_def isspace_def isdigit_def digit_value_def LONG_MAX_def)

lemma strtol10_hms: "strtol10 ''3661000000'' = 3661000000"
  by (simp add: strtol10_def isspace_def isdigit_def digit_value_def LONG_MAX_def)

lemma strtol10_ms: "strtol10 ''125000000'' = 125000000"
  by (simp add: strtol10_def isspace_def isdigit_def digit_value_def LONG_MAX_def)

lemma format_length_hms: "format_length 3661000000 = Some ''01:01:3601''"
  by (simp add: format_length_def len_h_def len_m_def len_s_def duration_cast_def fmt_02_def
      show_nat_small show_nat_large)

lemma format_length_ms: "format_length 125000000 = Some ''02:05''"
  by (simp add: format_length_def len_h_def len_m_def len_s_def duration_cast_def fmt_02_def
      show_nat_small show_nat_large)

lemma format_length_zero: "format_length 0 = None"
  by (simp add: format_length_def)

text \<open>
  C3. A duration of 0 microseconds gives no length field and 125000000 microseconds give
  \<open>02:05\<close>, as the specification says. For 3661000000 microseconds (1 h 1 min 1 s) the
  specification says \<open>01:01:01\<close>, but the code gives \<open>01:01:3601\<close>: the seconds are cast
  from \<^verbatim>\<open>len - len_m\<close>, which still holds the hour, not from what is left after the
  hours and the minutes.
\<close>

theorem duration_conversion_values:
  "length_of_prop ''0'' = None \<and>
   length_of_prop ''125000000'' = Some ''02:05'' \<and>
   length_of_prop ''3661000000'' = Some ''01:01:3601'' \<and>
   length_of_prop ''3661000000'' \<noteq> Some ''01:01:01''"
  by (simp add: length_of_prop_def strtol10_zero strtol10_hms strtol10_ms
      format_length_hms format_length_ms format_length_zero)

subsection \<open>The snapshot fetch only writes to the log\<close>

lemma logged_refl: "logged m m"
  unfolding logged_def by (rule exI [of _ "[]"]) simp

lemma logged_emit: "logged m m1 \<Longrightarrow> logged m (emit (Log l s) m1)"
  unfolding logged_def emit_def
proof (elim exE)
  fix ls assume "m1 = m\<lparr>trace := trace m @ map (\<lambda>(l, s). Log l s) ls\<rparr>"
  then have "m1\<lparr>trace := trace m1 @ [Log l s]\<rparr> =
      m\<lparr>trace := trace m @ map (\<lambda>(l, s). Log l s) (ls @ [(l, s)])\<rparr>"
    by simp
  then show "\<exists>ls'. m1\<lparr>trace := trace m1 @ [Log l s]\<rparr> =
      m\<lparr>trace := trace m @ map (\<lambda>(l, s). Log l s) ls'\<rparr>" ..
qed

lemma logged_fetch_text: "logged m (snd im) \<Longrightarrow> logged m (snd (fetch_text w key upd r im))"
  by (simp add: fetch_text_def logged_emit split: option.splits)

lemma logged_fetch_length: "logged m (snd im) \<Longrightarrow> logged m (snd (fetch_length r im))"
  by (simp add: fetch_length_def logged_emit split: option.splits)

lemma logged_errorexit: "logged m (snd im) \<Longrightarrow> logged m (snd (errorexit e im))"
  by (simp add: errorexit_def logged_emit)

lemma logged_fetch_metadata: "logged m (snd im) \<Longrightarrow> logged m (snd (fetch_metadata w p im))"
  by (simp add: fetch_metadata_def Let_def logged_fetch_text logged_fetch_length
      logged_errorexit split: option.splits)

lemma logged_getPlayerInfo: "logged m (snd (getPlayerInfo w m))"
  by (simp add: getPlayerInfo_def logged_refl logged_emit logged_fetch_metadata
      split: option.splits sum.splits)

lemma commands_append: "commands (xs @ ys) = commands xs @ commands ys"
  by (induction xs rule: commands.induct) simp_all

lemma delegations_append: "delegations (xs @ ys) = delegations xs @ delegations ys"
  by (induction xs rule: delegations.induct) simp_all

lemma commands_logs: "commands (map (\<lambda>(l, s). Log l s) ls) = []"
  by (induction ls) auto

lemma delegations_logs: "delegations (map (\<lambda>(l, s). Log l s) ls) = []"
  by (induction ls) auto

lemma logged_frame:
  assumes "logged m m1"
  shows "config_m m1 = config_m m" and "player m1 = player m" and "label_m m1 = label_m m"
    and "classes m1 = classes m" and "lastStatus m1 = lastStatus m"
    and "lastPlayer m1 = lastPlayer m" and "visible m1 = visible m"
    and "commands (trace m1) = commands (trace m)"
    and "delegations (trace m1) = delegations (trace m)"
  using assms unfolding logged_def
  by (auto simp: commands_append delegations_append commands_logs delegations_logs)

subsection \<open>The outcomes of the snapshot fetch\<close>

text \<open>
  The four fetches, started on the snapshot of line 189, end at \<^verbatim>\<open>errorexit\<close> when one of
  them left an error, and otherwise return the snapshot with every field that the
  queries gave.
\<close>

lemma fetch_metadata_chain:
  "fst (fetch_metadata w p im0) =
     (if fetch_error w p then Inr None
      else Inr (Some (fst
        (fetch_length (fst (print_metadata_prop w p ''mpris:length''))
          (fetch_text w ''title'' title_update (fst (get_title w p))
            (fetch_text w ''album'' album_update (fst (get_album w p))
              (fetch_text w ''artist'' artist_update (fst (get_artist w p)) im0)))))))"
  by (simp add: fetch_metadata_def Let_def errorexit_def fetch_error_def failed_def
      split: option.splits)

lemma fst_fetch_artist:
  "artist (fst im) = None \<Longrightarrow>
   fst (fetch_text w key artist_update (fst r) im) = (fst im)\<lparr>artist := text_value w r\<rparr>"
  by (simp add: fetch_text_def text_value_def split: option.splits)

lemma fst_fetch_album:
  "album (fst im) = None \<Longrightarrow>
   fst (fetch_text w key album_update (fst r) im) = (fst im)\<lparr>album := text_value w r\<rparr>"
  by (simp add: fetch_text_def text_value_def split: option.splits)

lemma fst_fetch_title:
  "title (fst im) = None \<Longrightarrow>
   fst (fetch_text w key title_update (fst r) im) = (fst im)\<lparr>title := text_value w r\<rparr>"
  by (simp add: fetch_text_def text_value_def split: option.splits)

lemma fst_fetch_length:
  "length_i (fst im) = None \<Longrightarrow>
   fst (fetch_length r im) =
     (fst im)\<lparr>length_i := (case r of None \<Rightarrow> None | Some l \<Rightarrow> length_of_prop l)\<rparr>"
  by (simp add: fetch_length_def split: option.splits)

lemma fetch_metadata_fst:
  "fst (fetch_metadata w p
         (\<lparr>name = nm, status = st, status_string = ss,
           artist = None, album = None, title = None, length_i = None\<rparr>, m)) =
   (if fetch_error w p then Inr None
    else Inr (Some \<lparr>name = nm, status = st, status_string = ss,
           artist = text_value w (get_artist w p),
           album = text_value w (get_album w p),
           title = text_value w (get_title w p),
           length_i = (case fst (print_metadata_prop w p ''mpris:length'') of
                    None \<Rightarrow> None
                  | Some l \<Rightarrow> length_of_prop l)\<rparr>))"
proof -
  let ?i0 = "\<lparr>name = nm, status = st, status_string = ss,
           artist = None, album = None, title = None, length_i = None\<rparr>"
  let ?im1 = "fetch_text w ''artist'' artist_update (fst (get_artist w p)) (?i0, m)"
  let ?im2 = "fetch_text w ''album'' album_update (fst (get_album w p)) ?im1"
  let ?im3 = "fetch_text w ''title'' title_update (fst (get_title w p)) ?im2"
  let ?im4 = "fetch_length (fst (print_metadata_prop w p ''mpris:length'')) ?im3"
  have 1: "fst ?im1 = ?i0\<lparr>artist := text_value w (get_artist w p)\<rparr>"
    by (simp add: fst_fetch_artist)
  have 2: "fst ?im2 = (fst ?im1)\<lparr>album := text_value w (get_album w p)\<rparr>"
    by (rule fst_fetch_album) (simp add: 1)
  have 3: "fst ?im3 = (fst ?im2)\<lparr>title := text_value w (get_title w p)\<rparr>"
    by (rule fst_fetch_title) (simp add: 2 1)
  have 4: "fst ?im4 = (fst ?im3)\<lparr>length_i :=
      (case fst (print_metadata_prop w p ''mpris:length'') of
         None \<Rightarrow> None | Some l \<Rightarrow> length_of_prop l)\<rparr>"
    by (rule fst_fetch_length) (simp add: 3 2 1)
  have "fst ?im4 = \<lparr>name = nm, status = st, status_string = ss,
           artist = text_value w (get_artist w p),
           album = text_value w (get_album w p),
           title = text_value w (get_title w p),
           length_i = (case fst (print_metadata_prop w p ''mpris:length'') of
                    None \<Rightarrow> None
                  | Some l \<Rightarrow> length_of_prop l)\<rparr>"
    by (simp only: 4 3 2 1) simp
  then show ?thesis
    by (simp only: fetch_metadata_chain)
qed

lemma getPlayerInfo_fst:
  "fst (getPlayerInfo w m) =
     (case player m of
        None \<Rightarrow> Inr None
      | Some p \<Rightarrow>
          (case resolve_name w m of
             Inl e \<Rightarrow> Inl (RuntimeError e)
           | Inr nm \<Rightarrow>
               if nm \<in> set (ignored_players_m m) then Inr None
               else (case status_prop w p of
                       None \<Rightarrow> Inl Undefined
                     | Some s \<Rightarrow>
                         (case lower_first s of
                            Inl f \<Rightarrow> Inl f
                          | Inr lowered \<Rightarrow>
                              if fetch_error w p then Inr None
                              else Inr (Some (snapshot w p nm lowered))))))"
  by (simp add: getPlayerInfo_def fetch_metadata_fst snapshot_def
      split: option.splits sum.splits)

lemma lower_first_Cons:
  "lower_first (c # cs) =
     (if 128 \<le> (of_char c :: nat) \<and> (of_char c :: nat) \<le> 254 then Inl Undefined
      else Inr (lower_letter c # cs))"
  by (simp add: lower_first_def tolower_def)

lemma lower_first_Inl:
  "(lower_first s = Inl f) =
     (f = Undefined \<and>
      (\<exists>c cs. s = c # cs \<and> 128 \<le> (of_char c :: nat) \<and> (of_char c :: nat) \<le> 254))"
  by (cases s) (auto simp: lower_first_Cons, simp add: lower_first_def)

lemma lower_first_tokens:
  "lower_first ''Playing'' = Inr ''playing''"
  "lower_first ''Paused'' = Inr ''paused''"
  "lower_first ''Stopped'' = Inr ''stopped''"
  by (simp_all add: lower_first_Cons lower_letter_def)

lemma length_of_prop_example: "length_of_prop ''201000000'' = Some ''03:21''"
  by (simp add: length_of_prop_def strtol10_def isspace_def isdigit_def digit_value_def
      LONG_MAX_def format_length_def len_h_def len_m_def len_s_def duration_cast_def fmt_02_def
      show_nat_small show_nat_large)

lemma getPlayerInfo_example:
  "fst (getPlayerInfo example_world example_mpris) = Inr (Some example_info)"
  by (simp add: getPlayerInfo_fst length_of_prop_example lower_first_tokens
      example_world_def example_mpris_def example_info_def
      resolve_name_def fetch_error_def failed_def snapshot_def text_value_def
      markup_escape_def escape_char_def)

text \<open>
  C1. The specification says that every call of \<^verbatim>\<open>getPlayerInfo\<close> gives a fully populated
  snapshot or no data. It fails for the module's default player, the alias \<^verbatim>\<open>playerctld\<close>,
  when the listing of the players fails: line 172 throws, and the call gives neither.
\<close>

theorem getPlayerInfo_throws_counterexample:
  "fst (getPlayerInfo (example_world\<lparr>list_players := ([], Some ''bus down'')\<rparr>) example_mpris) =
     Inl (RuntimeError ''unable to list players: bus down'')"
  by (simp add: getPlayerInfo_fst example_world_def example_mpris_def resolve_name_def)

text \<open>
  C1, as the code has it. Without a player the call gives no data. With a player whose
  status text is not null and is lowered by line 187 to the text \<open>lowered\<close>, the call
  throws the error of the listing of the players, or gives no data (the name is ignored,
  or one of the four fetches left an error), or gives the fully populated snapshot: a
  fetch error never comes with a snapshot, whole or partial. The error is thrown only for
  the alias \<^verbatim>\<open>playerctld\<close>, when the listing left an error.
\<close>

theorem getPlayerInfo_outcomes:
  "(player m = None \<longrightarrow> fst (getPlayerInfo w m) = Inr None) \<and>
   (player m = Some p \<and> status_prop w p = Some s \<and> lower_first s = Inr lowered \<longrightarrow>
      fst (getPlayerInfo w m) =
        (case resolve_name w m of
           Inl e \<Rightarrow> Inl (RuntimeError e)
         | Inr nm \<Rightarrow>
             if nm \<in> set (ignored_players_m m) \<or> fetch_error w p then Inr None
             else Inr (Some (snapshot w p nm lowered)))) \<and>
   ((\<exists>e. resolve_name w m = Inl e) =
      (player_m m = ''playerctld'' \<and> (\<exists>msg. snd (list_players w) = Some msg)))"
proof -
  have "(\<exists>e. resolve_name w m = Inl e) =
      (player_m m = ''playerctld'' \<and> (\<exists>msg. snd (list_players w) = Some msg))"
    by (simp add: resolve_name_def split: option.splits list.splits)
  then show ?thesis
    by (simp add: getPlayerInfo_fst split: sum.splits)
qed

theorem getPlayerInfo_outcomes_witness:
  "fst (getPlayerInfo example_world (example_mpris\<lparr>player := None\<rparr>)) = Inr None \<and>
   fst (getPlayerInfo example_world example_mpris) = Inr (Some example_info) \<and>
   fst (getPlayerInfo (example_world\<lparr>get_album := (\<lambda>p. (Some ''B'', Some ''timeout''))\<rparr>)
          example_mpris) = Inr None"
proof -
  have a: "fst (getPlayerInfo example_world (example_mpris\<lparr>player := None\<rparr>)) = Inr None"
    using getPlayerInfo_outcomes [of "example_mpris\<lparr>player := None\<rparr>" example_world]
    by simp
  have b: "fst (getPlayerInfo example_world example_mpris) = Inr (Some example_info)"
    using getPlayerInfo_outcomes [of example_mpris example_world 1 "''Playing''" "''playing''"]
      length_of_prop_example lower_first_tokens(1)
    by (simp add: example_world_def example_mpris_def example_info_def
      resolve_name_def fetch_error_def failed_def snapshot_def text_value_def
      markup_escape_def escape_char_def)
  have c: "fst (getPlayerInfo (example_world\<lparr>get_album := (\<lambda>p. (Some ''B'', Some ''timeout''))\<rparr>)
          example_mpris) = Inr None"
    using getPlayerInfo_outcomes [of example_mpris
        "example_world\<lparr>get_album := (\<lambda>p. (Some ''B'', Some ''timeout''))\<rparr>" 1 "''Playing''"
        "''playing''"]
      lower_first_tokens(1)
    by (simp add: example_world_def example_mpris_def resolve_name_def fetch_error_def failed_def)
  from a b c show ?thesis by simp
qed

subsection \<open>The status text\<close>


subsection \<open>Where the snapshot fetch is defined\<close>

text \<open>
  C10. The specification says that the fetch is total, giving a snapshot or no data, only
  when the status text is neither null nor empty. Three things are otherwise in the code.
  An empty status text is no trouble: the byte that line 187 rewrites is the terminating
  zero, and the fetch gives a snapshot with an empty status text. A status text that is
  neither null nor empty does not make the fetch give a snapshot or no data: the error
  of the listing of the players is thrown. And it does not make the fetch defined: on a
  text that starts with the byte 0xC3, as the UTF-8 form of an accented letter does,
  \<^verbatim>\<open>std::tolower\<close> is called with a negative value.
\<close>

theorem empty_status_counterexample:
  "map_sum id (map_option status_string)
     (fst (getPlayerInfo (example_world\<lparr>status_prop := (\<lambda>p. Some [])\<rparr>) example_mpris)) =
   Inr (Some []) \<and>
   fst (getPlayerInfo (example_world\<lparr>list_players := ([''vlc''], Some ''bus down'')\<rparr>)
          example_mpris) =
     Inl (RuntimeError ''unable to list players: bus down'') \<and>
   fst (getPlayerInfo (example_world\<lparr>status_prop := (\<lambda>p. Some [CHR 0xC3, CHR 0xA9])\<rparr>)
          example_mpris) =
     Inl Undefined"
  by (simp add: getPlayerInfo_fst example_world_def example_mpris_def resolve_name_def
      fetch_error_def failed_def snapshot_def lower_first_def tolower_def)

text \<open>
  C10, as the code has it. Line 187 lowers the first byte of the status text with
  \<^verbatim>\<open>std::tolower\<close>, with no test of the text before it. The outcome of the fetch is
  undefined exactly when that line is reached (there is a player, the name is resolved
  and is not ignored) with a status text that is null, or whose first byte is one of 0x80
  to 0xFE. In every other case the fetch throws the error of the listing of the players,
  or gives no data, or gives a snapshot whose status text is the reported text with its
  first byte lowered. The empty text is lowered to the empty text; a text that is not
  empty is lowered to the lower case of its first byte, followed by the rest unchanged.
\<close>

theorem getPlayerInfo_definedness:
  "((fst (getPlayerInfo w m) = Inl Undefined) =
      (\<exists>p nm. player m = Some p \<and> resolve_name w m = Inr nm \<and>
         nm \<notin> set (ignored_players_m m) \<and>
         (status_prop w p = None \<or>
          (\<exists>c cs. status_prop w p = Some (c # cs) \<and>
             128 \<le> (of_char c :: nat) \<and> (of_char c :: nat) \<le> 254)))) \<and>
   (fst (getPlayerInfo w m) = Inl Undefined \<or>
    (\<exists>e. fst (getPlayerInfo w m) = Inl (RuntimeError e) \<and> resolve_name w m = Inl e) \<or>
    fst (getPlayerInfo w m) = Inr None \<or>
    (\<exists>info p s. fst (getPlayerInfo w m) = Inr (Some info) \<and> player m = Some p \<and>
       status_prop w p = Some s \<and> lower_first s = Inr (status_string info))) \<and>
   lower_first [] = Inr [] \<and>
   lower_first (c # cs) =
     (if 128 \<le> (of_char c :: nat) \<and> (of_char c :: nat) \<le> 254 then Inl Undefined
      else Inr (lower_letter c # cs))"
proof -
  have undef: "(fst (getPlayerInfo w m) = Inl Undefined) =
      (\<exists>p nm. player m = Some p \<and> resolve_name w m = Inr nm \<and>
         nm \<notin> set (ignored_players_m m) \<and>
         (status_prop w p = None \<or>
          (\<exists>c cs. status_prop w p = Some (c # cs) \<and>
             128 \<le> (of_char c :: nat) \<and> (of_char c :: nat) \<le> 254)))"
    by (auto simp: getPlayerInfo_fst lower_first_Inl lower_first_Cons
        split: option.splits sum.splits)
  have kinds: "fst (getPlayerInfo w m) = Inl Undefined \<or>
    (\<exists>e. fst (getPlayerInfo w m) = Inl (RuntimeError e) \<and> resolve_name w m = Inl e) \<or>
    fst (getPlayerInfo w m) = Inr None \<or>
    (\<exists>info p s. fst (getPlayerInfo w m) = Inr (Some info) \<and> player m = Some p \<and>
       status_prop w p = Some s \<and> lower_first s = Inr (status_string info))"
    by (auto simp: getPlayerInfo_fst lower_first_Inl snapshot_def
        split: option.splits sum.splits)
  have empty: "lower_first [] = Inr []"
    by (simp add: lower_first_def)
  from undef kinds empty lower_first_Cons [of c cs] show ?thesis
    by (simp only: simp_thms)
qed

subsection \<open>The appearance and the vanishing of a player name\<close>

text \<open>
  C6. When a player name appears, whatever the name, the module drops its player and
  requests one refresh pass, after a sleep of one second; when a name vanishes, it
  drops its player and requests one refresh pass with no sleep before it. Nothing else
  of the module changes, and the trace is only extended.
\<close>

theorem name_signals:
  "(\<exists>m1. onPlayerNameAppeared pn (Some m) = Some m1 \<and> player m1 = None \<and>
          take (length (trace m)) (trace m1) = trace m \<and>
          requests 0 (added m m1) = [1] \<and>
          m1\<lparr>player := player m, trace := trace m\<rparr> = m) \<and>
   (\<exists>m1. onPlayerNameVanished pn (Some m) = Some m1 \<and> player m1 = None \<and>
          take (length (trace m)) (trace m1) = trace m \<and>
          requests 0 (added m m1) = [0] \<and>
          m1\<lparr>player := player m, trace := trace m\<rparr> = m)"
  by (simp add: onPlayerNameAppeared_def onPlayerNameVanished_def emit_def added_def)

subsection \<open>The composite placeholder\<close>

text \<open>
  C2. The specification says that the composite placeholder of artist A, album B, title C and
  length 03:21 is \<open>A - B - C [03:21]\<close>. The code puts markup around the bracketed
  length: the placeholder is \<open>A - B - C <small>[03:21]</small>\<close>.
\<close>

theorem dynamic_counterexample:
  "dynamic example_info = Inr ''A - B - C <small>[03:21]</small>'' \<and>
   dynamic example_info \<noteq> Inr ''A - B - C [03:21]''"
  by (simp add: dynamic_def example_info_def)

text \<open>
  With the title alone, line 324 dereferences the album, which is empty: the outcome is
  undefined, where the specification has the placeholder \<open>C\<close>.
\<close>

lemma dynamic_title_only:
  "dynamic (example_info\<lparr>artist := None, album := None, length_i := None\<rparr>) = Inl Undefined"
  by (simp add: dynamic_def example_info_def)

text \<open>
  C2, as the code has it where the album and the title are present: the placeholder is
  made of the present components among artist, album and title, joined by \<open>" - "\<close>,
  followed, when the length is present, by a space and the bracketed length in
  \<^verbatim>\<open><small>\<close> markup. The artist and the length may be present or absent.
\<close>

theorem dynamic_present:
  assumes "album info = Some b" and "title info = Some c"
  shows "dynamic info = Inr (dynamic_spec info)"
  using assms
  by (simp add: dynamic_def dynamic_spec_def List.map_filter_def split: option.splits)

theorem dynamic_present_witness:
  "album example_info = Some ''B'' \<and> title example_info = Some ''C'' \<and>
   dynamic example_info = Inr (dynamic_spec example_info) \<and>
   dynamic_spec example_info = ''A - B - C <small>[03:21]</small>'' \<and>
   dynamic (example_info\<lparr>artist := None, length_i := None\<rparr>) = Inr ''B - C''"
  using dynamic_present [of example_info "''B''" "''C''"]
    dynamic_present [of "example_info\<lparr>artist := None, length_i := None\<rparr>" "''B''" "''C''"]
  by (simp add: example_info_def dynamic_spec_def List.map_filter_def)

subsection \<open>Absent fields and the template\<close>

lemma format_args_absent:
  "artist info = None \<or> title info = None \<or> album info = None \<or> length_i info = None \<Longrightarrow>
   format_args config info dyn = Inl Undefined"
  by (auto simp: format_args_def split: option.splits)

lemma render_absent:
  "artist info = None \<or> title info = None \<or> album info = None \<or> length_i info = None \<Longrightarrow>
   fst (render w info m) = Some Undefined"
  by (cases "dynamic info")
     (auto simp: render_def Let_def format_args_absent dynamic_def split: option.splits)

text \<open>
  C4. The specification says that rendering fails exactly when the template refers to a direct
  placeholder whose field is absent, and that a template that refers to present fields
  only is rendered whatever else is absent. The code dereferences all four optional
  fields at lines 367 and 368 to build the arguments, before the template is looked at:
  with an absent artist, title, album or length the rendering is undefined for every
  template and every formatter.
  The template \<^verbatim>\<open>{player}\<close>, which refers to no optional field, is rendered as \<open>vlc\<close>
  when all fields are present, and the pass is undefined when the artist is absent.
\<close>

theorem absent_field_undefined:
  "fst (render w (info\<lparr>artist := None\<rparr>) m) = Some Undefined \<and>
   fst (render w (info\<lparr>title := None\<rparr>) m) = Some Undefined \<and>
   fst (render w (info\<lparr>album := None\<rparr>) m) = Some Undefined \<and>
   fst (render w (info\<lparr>length_i := None\<rparr>) m) = Some Undefined \<and>
   fst (update example_world (example_mpris\<lparr>format_m := ''{player}''\<rparr>)) = None \<and>
   label_m (snd (update example_world (example_mpris\<lparr>format_m := ''{player}''\<rparr>))) = ''vlc'' \<and>
   fst (update (example_world\<lparr>get_artist := (\<lambda>p. (None, None))\<rparr>)
          (example_mpris\<lparr>format_m := ''{player}''\<rparr>)) = Some Undefined"
proof -
  have "fst (render w (info\<lparr>artist := None\<rparr>) m) = Some Undefined"
    by (rule render_absent) simp
  moreover have "fst (render w (info\<lparr>title := None\<rparr>) m) = Some Undefined"
    by (rule render_absent) simp
  moreover have "fst (render w (info\<lparr>album := None\<rparr>) m) = Some Undefined"
    by (rule render_absent) simp
  moreover have "fst (render w (info\<lparr>length_i := None\<rparr>) m) = Some Undefined"
    by (rule render_absent) simp
  moreover have "fst (update example_world (example_mpris\<lparr>format_m := ''{player}''\<rparr>)) = None"
    by code_simp
  moreover have
    "label_m (snd (update example_world (example_mpris\<lparr>format_m := ''{player}''\<rparr>))) = ''vlc''"
    by code_simp
  moreover have "fst (update (example_world\<lparr>get_artist := (\<lambda>p. (None, None))\<rparr>)
          (example_mpris\<lparr>format_m := ''{player}''\<rparr>)) = Some Undefined"
    by code_simp
  ultimately show ?thesis by simp
qed

subsection \<open>Clicks\<close>

lemma getPlayerInfo_Some_player:
  "fst (getPlayerInfo w m) = Inr (Some info) \<Longrightarrow> \<exists>p. player m = Some p"
  by (simp add: getPlayerInfo_fst split: option.splits)

lemma finish_toggle_issue:
  assumes "player m1 = Some p"
  shows "finish_toggle info (issue w c m1) =
     (case run_command w c p of
        Some msg \<Rightarrow>
          (Inr False,
           emit (Log Error (''mpris['' @ name info @
                   '']: error running builtin on-click action: '' @ msg)) (emit (Command c p) m1))
      | None \<Rightarrow> (Inr True, emit (Command c p) m1))"
  using assms by (simp add: finish_toggle_def issue_def split: option.splits)

lemma handleToggle_press:
  assumes "getPlayerInfo w m = (Inr (Some info), m1)" and "ev_type e = GDK_BUTTON_PRESS"
    and "button e \<in> {1, 2, 3}"
  shows "handleToggle w e m =
     (if isString (member (config_m m1) (override_key (button e))) then delegate w e m1
      else finish_toggle info (issue w (builtin (button e)) m1))"
  using assms by (auto simp: handleToggle_def override_key_def builtin_def)

text \<open>
  C7. A click is a button event of type \<^verbatim>\<open>GDK_BUTTON_PRESS\<close> with button 1, 2 or 3, and
  a snapshot is present when \<^verbatim>\<open>getPlayerInfo\<close> returns one. If the configuration has a
  string under the override key of the button, the click is passed to the parent class,
  whose answer is returned, and no built-in command is issued. Otherwise exactly the
  built-in command of the button is issued to the module's player (play-pause for 1,
  previous for 2, next for 3) and nothing is passed to the parent; the click is reported
  handled exactly when the command left no error.
\<close>

theorem handleToggle_click:
  assumes "fst (getPlayerInfo w m) = Inr (Some info)" and "ev_type e = GDK_BUTTON_PRESS"
    and "button e \<in> {1, 2, 3}"
  shows "if isString (member (config_m m) (override_key (button e)))
         then fst (handleToggle w e m) = Inr (parent_handleToggle w e) \<and>
              delegations (trace (snd (handleToggle w e m))) = delegations (trace m) @ [e] \<and>
              commands (trace (snd (handleToggle w e m))) = commands (trace m)
         else (\<exists>p. player m = Some p \<and>
                 fst (handleToggle w e m) =
                   Inr (run_command w (builtin (button e)) p = None)) \<and>
              delegations (trace (snd (handleToggle w e m))) = delegations (trace m) \<and>
              commands (trace (snd (handleToggle w e m))) =
                commands (trace m) @ [builtin (button e)]"
proof -
  define m1 where "m1 = snd (getPlayerInfo w m)"
  have g: "getPlayerInfo w m = (Inr (Some info), m1)"
    using assms(1) by (simp add: m1_def prod_eq_iff)
  have l: "logged m m1"
    unfolding m1_def by (rule logged_getPlayerInfo)
  obtain p where p: "player m = Some p"
    using getPlayerInfo_Some_player [OF assms(1)] by blast
  have p1: "player m1 = Some p"
    using p logged_frame(2) [OF l] by simp
  have h: "handleToggle w e m =
     (if isString (member (config_m m) (override_key (button e))) then delegate w e m1
      else finish_toggle info (issue w (builtin (button e)) m1))"
    using handleToggle_press [OF g assms(2) assms(3)] logged_frame(1) [OF l] by simp
  show ?thesis
  proof (cases "isString (member (config_m m) (override_key (button e)))")
    case True
    then show ?thesis
      using h logged_frame(8) [OF l] logged_frame(9) [OF l]
      by (simp add: delegate_def emit_def commands_append delegations_append)
  next
    case False
    then show ?thesis
      using h p logged_frame(8) [OF l] logged_frame(9) [OF l]
      by (auto simp: finish_toggle_issue [OF p1] emit_def commands_append delegations_append
          split: option.splits)
  qed
qed

theorem handleToggle_click_witness:
  "commands (trace (snd (handleToggle example_world \<lparr>ev_type = GDK_BUTTON_PRESS, button = 2\<rparr>
      (example_mpris\<lparr>config_m := JObject [(''on-middle-click'', JString ''playerctl stop'')]\<rparr>)))) = [] \<and>
   delegations (trace (snd (handleToggle example_world \<lparr>ev_type = GDK_BUTTON_PRESS, button = 2\<rparr>
      (example_mpris\<lparr>config_m := JObject [(''on-middle-click'', JString ''playerctl stop'')]\<rparr>)))) =
     [\<lparr>ev_type = GDK_BUTTON_PRESS, button = 2\<rparr>] \<and>
   commands (trace (snd (handleToggle example_world \<lparr>ev_type = GDK_BUTTON_PRESS, button = 2\<rparr>
      example_mpris))) = [Previous] \<and>
   fst (handleToggle example_world \<lparr>ev_type = GDK_BUTTON_PRESS, button = 2\<rparr> example_mpris) =
     Inr True \<and>
   fst (handleToggle (example_world\<lparr>run_command := (\<lambda>c p. Some ''no reply'')\<rparr>)
          \<lparr>ev_type = GDK_BUTTON_PRESS, button = 1\<rparr> example_mpris) = Inr False"
proof -
  let ?e = "\<lparr>ev_type = GDK_BUTTON_PRESS, button = 2\<rparr>"
  let ?e1 = "\<lparr>ev_type = GDK_BUTTON_PRESS, button = 1\<rparr>"
  let ?m = "example_mpris\<lparr>config_m := JObject [(''on-middle-click'', JString ''playerctl stop'')]\<rparr>"
  let ?w = "example_world\<lparr>run_command := (\<lambda>c p. Some ''no reply'')\<rparr>"
  have g1: "fst (getPlayerInfo example_world ?m) = Inr (Some example_info)"
    by code_simp
  have g2: "fst (getPlayerInfo ?w example_mpris) = Inr (Some example_info)"
    by code_simp
  have ty: "ev_type ?e = GDK_BUTTON_PRESS" "ev_type ?e1 = GDK_BUTTON_PRESS" by simp_all
  have b: "button ?e \<in> {1, 2, 3}" "button ?e1 \<in> {1, 2, 3}" by simp_all
  show ?thesis
    using handleToggle_click [OF g1 ty(1) b(1)]
      handleToggle_click [OF getPlayerInfo_example ty(1) b(1)]
      handleToggle_click [OF g2 ty(2) b(2)]
    by (simp add: example_mpris_def example_world_def override_key_def builtin_def
        member_def isString_def)
qed

subsection \<open>A stopped player\<close>

lemma connect_player_format_stopped:
  "connect_player w (m\<lparr>format_stopped_m := f\<rparr>) =
     (fst (connect_player w m), (snd (connect_player w m))\<lparr>format_stopped_m := f\<rparr>)"
  by (simp add: connect_player_def Let_def emit_def split: option.splits)

lemma fetch_text_format_stopped:
  "fetch_text w key upd r (fst im, (snd im)\<lparr>format_stopped_m := f\<rparr>) =
     (fst (fetch_text w key upd r im), (snd (fetch_text w key upd r im))\<lparr>format_stopped_m := f\<rparr>)"
  by (simp add: fetch_text_def emit_def split: option.splits)

lemma fetch_length_format_stopped:
  "fetch_length r (fst im, (snd im)\<lparr>format_stopped_m := f\<rparr>) =
     (fst (fetch_length r im), (snd (fetch_length r im))\<lparr>format_stopped_m := f\<rparr>)"
  by (simp add: fetch_length_def emit_def split: option.splits)

lemma errorexit_format_stopped:
  "errorexit e (fst im, (snd im)\<lparr>format_stopped_m := f\<rparr>) =
     (fst (errorexit e im), (snd (errorexit e im))\<lparr>format_stopped_m := f\<rparr>)"
  by (simp add: errorexit_def emit_def)

lemma fetch_metadata_format_stopped:
  "fetch_metadata w p (fst im, (snd im)\<lparr>format_stopped_m := f\<rparr>) =
     (fst (fetch_metadata w p im), (snd (fetch_metadata w p im))\<lparr>format_stopped_m := f\<rparr>)"
  by (simp add: fetch_metadata_def Let_def fetch_text_format_stopped
      fetch_length_format_stopped errorexit_format_stopped split: option.splits)

lemma resolve_name_format_stopped:
  "resolve_name w (m\<lparr>format_stopped_m := f\<rparr>) = resolve_name w m"
  by (simp add: resolve_name_def split: option.splits list.splits)

lemma getPlayerInfo_format_stopped:
  "getPlayerInfo w (m\<lparr>format_stopped_m := f\<rparr>) =
     (fst (getPlayerInfo w m), (snd (getPlayerInfo w m))\<lparr>format_stopped_m := f\<rparr>)"
proof -
  have fm: "fetch_metadata w p (i, m\<lparr>format_stopped_m := f\<rparr>) =
     (fst (fetch_metadata w p (i, m)), (snd (fetch_metadata w p (i, m)))\<lparr>format_stopped_m := f\<rparr>)"
    for p i
    using fetch_metadata_format_stopped [of w p "(i, m)" f] by simp
  show ?thesis
  proof (cases "player m")
    case None
    then show ?thesis by (simp add: getPlayerInfo_def emit_def)
  next
    case (Some p)
    show ?thesis
    proof (cases "resolve_name w m")
      case (Inl e)
      with Some show ?thesis
        by (simp add: getPlayerInfo_def resolve_name_format_stopped)
    next
      case (Inr nm)
      with Some show ?thesis
        by (cases "status_prop w p")
           (simp_all add: getPlayerInfo_def resolve_name_format_stopped emit_def fm
              split: sum.splits)
    qed
  qed
qed

lemma render_format_stopped:
  assumes "status info \<noteq> STOPPED"
  shows "render w info (m\<lparr>format_stopped_m := f\<rparr>) =
     (fst (render w info m), (snd (render w info m))\<lparr>format_stopped_m := f\<rparr>)"
  using assms
  by (cases "status info")
     (simp_all add: render_def Let_def select_format_def emit_def split: sum.splits)

lemma update_format_stopped:
  "update w (m\<lparr>format_stopped_m := f\<rparr>) =
     (fst (update w m), (snd (update w m))\<lparr>format_stopped_m := f\<rparr>)"
proof -
  obtain r1 m1 where c: "connect_player w m = (r1, m1)" by (cases "connect_player w m")
  obtain r2 m2 where g: "getPlayerInfo w m1 = (r2, m2)" by (cases "getPlayerInfo w m1")
  have c': "connect_player w (m\<lparr>format_stopped_m := f\<rparr>) = (r1, m1\<lparr>format_stopped_m := f\<rparr>)"
    using c by (simp add: connect_player_format_stopped)
  have g': "getPlayerInfo w (m1\<lparr>format_stopped_m := f\<rparr>) = (r2, m2\<lparr>format_stopped_m := f\<rparr>)"
    using g by (simp add: getPlayerInfo_format_stopped)
  show ?thesis
  proof (cases r1)
    case (Some e)
    then show ?thesis using c c' by (simp add: update_def)
  next
    case None
    show ?thesis
    proof (cases r2)
      case (Inl e)
      then show ?thesis using None c c' g g' by (simp add: update_def)
    next
      case (Inr opt)
      show ?thesis
      proof (cases opt)
        case None': None
        then show ?thesis using None Inr c c' g g' by (simp add: update_def emit_def)
      next
        case (Some info)
        show ?thesis
        proof (cases "status info = STOPPED")
          case True
          then show ?thesis using None Inr Some c c' g g' by (simp add: update_def emit_def)
        next
          case False
          have "emit e (m2\<lparr>format_stopped_m := f\<rparr>) = (emit e m2)\<lparr>format_stopped_m := f\<rparr>" for e
            by (simp add: emit_def)
          then show ?thesis
            using False None Inr Some c c' g g' render_format_stopped [OF False]
            by (simp add: update_def)
        qed
      qed
    qed
  qed
qed

lemma connect_player_frame:
  "label_m (snd (connect_player w m)) = label_m m"
  "classes (snd (connect_player w m)) = classes m"
  "lastStatus (snd (connect_player w m)) = lastStatus m"
  "lastPlayer (snd (connect_player w m)) = lastPlayer m"
  "player_m (snd (connect_player w m)) = player_m m"
  by (simp_all add: connect_player_def Let_def emit_def split: option.splits)

lemma fetch_text_formatter:
  "fetch_text (w\<lparr>fmt_format := g\<rparr>) key upd r im = fetch_text w key upd r im"
  by (simp add: fetch_text_def split: option.splits)

lemma fetch_metadata_formatter:
  "fetch_metadata (w\<lparr>fmt_format := g\<rparr>) p im = fetch_metadata w p im"
  by (simp add: fetch_metadata_def Let_def fetch_text_formatter split: option.splits)

lemma resolve_name_formatter: "resolve_name (w\<lparr>fmt_format := g\<rparr>) m = resolve_name w m"
  by (simp add: resolve_name_def split: option.splits list.splits)

lemma getPlayerInfo_formatter: "getPlayerInfo (w\<lparr>fmt_format := g\<rparr>) m = getPlayerInfo w m"
  by (simp add: getPlayerInfo_def resolve_name_formatter fetch_metadata_formatter
      split: option.splits sum.splits)

lemma connect_player_formatter: "connect_player (w\<lparr>fmt_format := g\<rparr>) m = connect_player w m"
  by (simp add: connect_player_def Let_def split: option.splits)

lemma update_stopped_eq:
  assumes "connect_player w m = (None, m1)" and "getPlayerInfo w m1 = (Inr (Some info), m2)"
    and "status info = STOPPED"
  shows "update w m =
     (None, emit ParentUpdate
              ((emit (Log Debug (''mpris['' @ name info @ '']: player stopped'')) m2)
               \<lparr>visible := False\<rparr>))"
  using assms by (simp add: update_def)

text \<open>
  C9. When the snapshot of a pass has the status \<^verbatim>\<open>STOPPED\<close>, the pass ends normally with
  the output not visible; the label, the style classes and the remembered status and
  player classes are those of before the pass. The formatter is not called (the pass is
  the same for every formatter) and the template \<^verbatim>\<open>format-stopped\<close> is not read (the pass
  is the same for every value of it).
\<close>

theorem update_stopped:
  assumes "fst (connect_player w m) = None"
    and "fst (getPlayerInfo w (snd (connect_player w m))) = Inr (Some info)"
    and "status info = STOPPED"
  shows "fst (update w m) = None \<and>
         visible (snd (update w m)) = False \<and>
         label_m (snd (update w m)) = label_m m \<and>
         classes (snd (update w m)) = classes m \<and>
         lastStatus (snd (update w m)) = lastStatus m \<and>
         lastPlayer (snd (update w m)) = lastPlayer m \<and>
         update (w\<lparr>fmt_format := g\<rparr>) m = update w m \<and>
         update w (m\<lparr>format_stopped_m := f\<rparr>) =
           (fst (update w m), (snd (update w m))\<lparr>format_stopped_m := f\<rparr>)"
proof -
  define m1 where "m1 = snd (connect_player w m)"
  define m2 where "m2 = snd (getPlayerInfo w m1)"
  have c: "connect_player w m = (None, m1)"
    using assms(1) by (simp add: m1_def prod_eq_iff)
  have g: "getPlayerInfo w m1 = (Inr (Some info), m2)"
    using assms(2) by (simp add: m1_def m2_def prod_eq_iff)
  have l: "logged m1 m2"
    unfolding m2_def by (rule logged_getPlayerInfo)
  note u = update_stopped_eq [OF c g assms(3)]
  have c': "connect_player (w\<lparr>fmt_format := g\<rparr>) m = (None, m1)"
    using c by (simp add: connect_player_formatter)
  have g': "getPlayerInfo (w\<lparr>fmt_format := g\<rparr>) m1 = (Inr (Some info), m2)"
    using g by (simp add: getPlayerInfo_formatter)
  have frame: "label_m m2 = label_m m" "classes m2 = classes m"
    "lastStatus m2 = lastStatus m" "lastPlayer m2 = lastPlayer m"
    using logged_frame [OF l] connect_player_frame [of w m] by (simp_all add: m1_def)
  have "update (w\<lparr>fmt_format := g\<rparr>) m = update w m"
    using update_stopped_eq [OF c' g' assms(3)] u by simp
  then show ?thesis
    using u frame by (simp add: emit_def update_format_stopped)
qed

theorem update_stopped_witness:
  "fst (update (example_world\<lparr>status_prop := (\<lambda>p. Some ''Stopped''),
                               playback_status_prop := (\<lambda>p. STOPPED)\<rparr>)
          (example_mpris\<lparr>format_stopped_m := ''stopped: {title}'', label_m := ''old label'',
                          visible := True\<rparr>)) = None \<and>
   visible (snd (update (example_world\<lparr>status_prop := (\<lambda>p. Some ''Stopped''),
                               playback_status_prop := (\<lambda>p. STOPPED)\<rparr>)
          (example_mpris\<lparr>format_stopped_m := ''stopped: {title}'', label_m := ''old label'',
                          visible := True\<rparr>))) = False \<and>
   label_m (snd (update (example_world\<lparr>status_prop := (\<lambda>p. Some ''Stopped''),
                               playback_status_prop := (\<lambda>p. STOPPED)\<rparr>)
          (example_mpris\<lparr>format_stopped_m := ''stopped: {title}'', label_m := ''old label'',
                          visible := True\<rparr>))) = ''old label''"
proof -
  let ?w = "example_world\<lparr>status_prop := (\<lambda>p. Some ''Stopped''),
                               playback_status_prop := (\<lambda>p. STOPPED)\<rparr>"
  let ?m = "example_mpris\<lparr>format_stopped_m := ''stopped: {title}'', label_m := ''old label'',
                          visible := True\<rparr>"
  let ?i = "example_info\<lparr>status := STOPPED, status_string := ''stopped''\<rparr>"
  have c: "fst (connect_player ?w ?m) = None"
    by code_simp
  have g: "fst (getPlayerInfo ?w (snd (connect_player ?w ?m))) = Inr (Some ?i)"
    by code_simp
  have st: "status ?i = STOPPED" by simp
  note u = update_stopped [OF c g st]
  have "label_m ?m = ''old label''"
    by (simp add: example_mpris_def)
  with u [THEN conjunct1] u [THEN conjunct2, THEN conjunct1]
    u [THEN conjunct2, THEN conjunct2, THEN conjunct1]
  show ?thesis by (simp only:)
qed

subsection \<open>Errors of the bus\<close>

text \<open>
  C5. When the module has no player and opening one leaves an error, and when the module
  has a player after the connection step, is configured with the alias \<^verbatim>\<open>playerctld\<close> and
  the listing of the players leaves an error, \<^verbatim>\<open>update\<close> throws a \<^verbatim>\<open>std::runtime_error\<close>
  with the message of the error. The host's pass then is aborted, not unhandled, and its
  only trace is the logged message.
\<close>

theorem bus_errors_abort_pass:
  "(player m = None \<and> snd (new_from_name w (player_m m)) = Some msg \<longrightarrow>
      fst (update w m) =
        Some (RuntimeError (''unable to connect to player '' @ player_m m @ '': '' @ msg)) \<and>
      refresh_pass w m =
        (Aborted,
         emit (Log Error (''unable to connect to player '' @ player_m m @ '': '' @ msg))
           (m\<lparr>player := fst (new_from_name w (player_m m))\<rparr>))) \<and>
   (fst (connect_player w m) = None \<and> player (snd (connect_player w m)) = Some p \<and>
    player_m m = ''playerctld'' \<and> snd (list_players w) = Some msg \<longrightarrow>
      fst (update w m) = Some (RuntimeError (''unable to list players: '' @ msg)) \<and>
      refresh_pass w m =
        (Aborted,
         emit (Log Error (''unable to list players: '' @ msg)) (snd (connect_player w m))))"
proof (intro conjI impI)
  assume a: "player m = None \<and> snd (new_from_name w (player_m m)) = Some msg"
  then have u: "update w m =
      (Some (RuntimeError (''unable to connect to player '' @ player_m m @ '': '' @ msg)),
       m\<lparr>player := fst (new_from_name w (player_m m))\<rparr>)"
    by (simp add: update_def connect_player_def Let_def)
  show "fst (update w m) =
      Some (RuntimeError (''unable to connect to player '' @ player_m m @ '': '' @ msg))"
    by (simp add: u)
  show "refresh_pass w m =
        (Aborted,
         emit (Log Error (''unable to connect to player '' @ player_m m @ '': '' @ msg))
           (m\<lparr>player := fst (new_from_name w (player_m m))\<rparr>))"
    by (simp add: refresh_pass_def u)
next
  assume a: "fst (connect_player w m) = None \<and> player (snd (connect_player w m)) = Some p \<and>
    player_m m = ''playerctld'' \<and> snd (list_players w) = Some msg"
  define m1 where "m1 = snd (connect_player w m)"
  have c: "connect_player w m = (None, m1)"
    using a by (simp add: m1_def prod_eq_iff)
  have "player_m m1 = ''playerctld''"
    using a connect_player_frame(5) [of w m] by (simp add: m1_def)
  then have g: "getPlayerInfo w m1 = (Inl (RuntimeError (''unable to list players: '' @ msg)), m1)"
    using a by (simp add: getPlayerInfo_def resolve_name_def m1_def)
  have u: "update w m = (Some (RuntimeError (''unable to list players: '' @ msg)), m1)"
    by (simp add: update_def c g)
  show "fst (update w m) = Some (RuntimeError (''unable to list players: '' @ msg))"
    by (simp add: u)
  show "refresh_pass w m =
        (Aborted,
         emit (Log Error (''unable to list players: '' @ msg)) (snd (connect_player w m)))"
    by (simp add: refresh_pass_def u m1_def)
qed

theorem bus_errors_abort_pass_witness:
  "refresh_pass (example_world\<lparr>new_from_name := (\<lambda>n. (None, Some ''no such player''))\<rparr>)
      (example_mpris\<lparr>player := None\<rparr>) =
     (Aborted,
      example_mpris\<lparr>player := None,
        trace := [Log Error ''unable to connect to player playerctld: no such player'']\<rparr>) \<and>
   refresh_pass (example_world\<lparr>list_players := ([], Some ''bus down'')\<rparr>) example_mpris =
     (Aborted, example_mpris\<lparr>trace := [Log Error ''unable to list players: bus down'']\<rparr>)"
proof -
  let ?w1 = "example_world\<lparr>new_from_name := (\<lambda>n. (None, Some ''no such player''))\<rparr>"
  let ?m1 = "example_mpris\<lparr>player := None\<rparr>"
  let ?w2 = "example_world\<lparr>list_players := ([], Some ''bus down'')\<rparr>"
  have a1: "player ?m1 = None \<and> snd (new_from_name ?w1 (player_m ?m1)) = Some ''no such player''"
    by (simp add: example_world_def)
  have a2: "fst (connect_player ?w2 example_mpris) = None \<and>
      player (snd (connect_player ?w2 example_mpris)) = Some 1 \<and>
      player_m example_mpris = ''playerctld'' \<and> snd (list_players ?w2) = Some ''bus down''"
    by (simp add: example_world_def example_mpris_def connect_player_def)
  have c2: "snd (connect_player ?w2 example_mpris) = example_mpris"
    by (simp add: example_mpris_def connect_player_def)
  show ?thesis
    using bus_errors_abort_pass [of ?m1 ?w1 "''no such player''", THEN conjunct1]
      bus_errors_abort_pass [of example_mpris ?w2 "''bus down''" 1, THEN conjunct2]
      a1 a2 c2
    by (simp add: example_mpris_def example_world_def emit_def)
qed

end
